theory Spec2Isabelle
  imports Main
begin

section \<open>Python strings\<close>

text \<open>
  A Python \<^verbatim>\<open>str\<close> is a sequence of Unicode code points; \<^verbatim>\<open>len\<close>, slices and
  character classes all work on code points. A string is modelled as the list of its
  code points. \<open>str\<close> reads an ASCII literal as such a list; other code points are
  written as numerals.
\<close>

type_synonym ustring = "nat list"

definition str :: "string \<Rightarrow> ustring" where
  "str s = map of_char s"

text \<open>
  \<^verbatim>\<open>str.isspace\<close> on one code point: the class \<^verbatim>\<open>\s\<close> of \<^verbatim>\<open>re\<close> on
  \<^verbatim>\<open>str\<close> patterns, and what \<^verbatim>\<open>str.strip()\<close> removes.
\<close>

definition is_space :: "nat \<Rightarrow> bool" where
  "is_space c \<longleftrightarrow>
     (0x09 \<le> c \<and> c \<le> 0x0D) \<or> (0x1C \<le> c \<and> c \<le> 0x20) \<or> c = 0x85 \<or> c = 0xA0 \<or>
     c = 0x1680 \<or> (0x2000 \<le> c \<and> c \<le> 0x200A) \<or> c = 0x2028 \<or> c = 0x2029 \<or>
     c = 0x202F \<or> c = 0x205F \<or> c = 0x3000"

definition lstrip :: "ustring \<Rightarrow> ustring" where
  "lstrip s = dropWhile is_space s"

definition rstrip :: "ustring \<Rightarrow> ustring" where
  "rstrip s = rev (dropWhile is_space (rev s))"

text \<open>\<^verbatim>\<open>s.strip()\<close>\<close>

definition strip :: "ustring \<Rightarrow> ustring" where
  "strip s = rstrip (lstrip s)"

text \<open>
  \<^verbatim>\<open>s.replace(old, new)\<close>: the occurrences of \<open>old\<close> are found from the left and
  do not overlap. With an empty \<open>old\<close> Python puts \<open>new\<close> before every code point
  and at the end.
\<close>

fun str_replace :: "ustring \<Rightarrow> ustring \<Rightarrow> ustring \<Rightarrow> ustring" where
  "str_replace old new [] = (if old = [] then new else [])"
| "str_replace old new (c # cs) =
     (if old = [] then new @ c # str_replace old new cs
      else if take (length old) (c # cs) = old
        then new @ str_replace old new (drop (length old - 1) cs)
      else c # str_replace old new cs)"

text \<open>\<^verbatim>\<open>s.split(sep)\<close> for a separator of one code point, and \<^verbatim>\<open>sep.join(lines)\<close>.\<close>

fun split_on :: "nat \<Rightarrow> ustring \<Rightarrow> ustring list" where
  "split_on sep [] = [[]]"
| "split_on sep (c # cs) =
     (if c = sep then [] # split_on sep cs
      else (case split_on sep cs of
              [] \<Rightarrow> [[c]]
            | l # ls \<Rightarrow> (c # l) # ls))"

fun join :: "ustring \<Rightarrow> ustring list \<Rightarrow> ustring" where
  "join sep [] = []"
| "join sep [l] = l"
| "join sep (l # ls) = l @ sep @ join sep ls"

text \<open>
  \<^verbatim>\<open>s.rsplit(sep, 1)[0]\<close> for a separator of one code point: what stands before the
  last \<open>sep\<close>, or all of \<open>s\<close> when it has none.
\<close>

definition rsplit1_head :: "nat \<Rightarrow> ustring \<Rightarrow> ustring" where
  "rsplit1_head sep s =
     (if sep \<in> set s then rev (tl (dropWhile (\<lambda>c. c \<noteq> sep) (rev s))) else s)"

text \<open>The slice \<^verbatim>\<open>s[:n]\<close>; a negative \<open>n\<close> counts from the end.\<close>

definition slice_to :: "ustring \<Rightarrow> int \<Rightarrow> ustring" where
  "slice_to s n = (if 0 \<le> n then take (nat n) s else take (length s - nat (- n)) s)"

section \<open>Regular-expression substitution\<close>

text \<open>
  \<^verbatim>\<open>pattern.sub(repl, s)\<close> scans \<open>s\<close> from the left; where the pattern matches it
  writes \<open>repl\<close> and goes on behind the match, elsewhere it copies one code point.
  A compiled pattern is modelled by its matcher: given the rest of the string at the
  current position, the length of the match the backtracking engine finds there, or
  \<open>None\<close>. None of the patterns of this module has an anchor or a look-around, and
  each of them matches at least one code point.
\<close>

fun re_sub :: "(ustring \<Rightarrow> nat option) \<Rightarrow> ustring \<Rightarrow> ustring \<Rightarrow> ustring" where
  "re_sub m repl [] = []"
| "re_sub m repl (c # cs) =
     (case m (c # cs) of
        None \<Rightarrow> c # re_sub m repl cs
      | Some n \<Rightarrow> repl @ re_sub m repl (drop (n - 1) cs))"

text \<open>Substitution for a pattern that is one character class \<^verbatim>\<open>[...]\<close>.\<close>

definition sub_chars :: "(nat \<Rightarrow> bool) \<Rightarrow> ustring \<Rightarrow> ustring \<Rightarrow> ustring" where
  "sub_chars P repl s = concat (map (\<lambda>c. if P c then repl else [c]) s)"

text \<open>\<^verbatim>\<open>/?>\<close>, the common tail of the two patterns below.\<close>

definition slash_gt :: "ustring \<Rightarrow> nat option" where
  "slash_gt s =
     (if take 2 s = [0x2F, 0x3E] then Some 2
      else if take 1 s = [0x3E] then Some 1
      else None)"

text \<open>
  \<^verbatim>\<open><br\s*/?>\<close> with \<^verbatim>\<open>re.IGNORECASE\<close>. The greedy \<^verbatim>\<open>\s*\<close> takes the whole run
  of white space; giving some of it back cannot help, since what follows must be
  \<^verbatim>\<open>/\<close> or \<^verbatim>\<open>>\<close>.
\<close>

definition br_pattern :: "ustring \<Rightarrow> nat option" where
  "br_pattern s =
     (case s of
        lt # b # r # rest \<Rightarrow>
          if lt = 0x3C \<and> b \<in> {0x62, 0x42} \<and> r \<in> {0x72, 0x52}
          then map_option (\<lambda>k. 3 + length (takeWhile is_space rest) + k)
                 (slash_gt (dropWhile is_space rest))
          else None
      | _ \<Rightarrow> None)"

text \<open>\<^verbatim>\<open></?p\s*/?>\<close> with \<^verbatim>\<open>re.IGNORECASE\<close>.\<close>

definition p_pattern :: "ustring \<Rightarrow> nat option" where
  "p_pattern s =
     (case s of
        [] \<Rightarrow> None
      | lt # r1 \<Rightarrow>
          if lt = 0x3C then
            (let (k0, r2) = (case r1 of
                               [] \<Rightarrow> (0, r1)
                             | x # r \<Rightarrow> if x = 0x2F then (1, r) else (0, r1))
             in case r2 of
                  [] \<Rightarrow> None
                | p # r3 \<Rightarrow>
                    if p \<in> {0x70, 0x50}
                    then map_option (\<lambda>k. 2 + k0 + length (takeWhile is_space r3) + k)
                           (slash_gt (dropWhile is_space r3))
                    else None)
          else None)"

text \<open>
  \<^verbatim>\<open><li[^>]*>\<close> with \<^verbatim>\<open>re.IGNORECASE\<close>: on \<^verbatim>\<open>str\<close> patterns the letter
  \<^verbatim>\<open>i\<close> also matches U+0130 and U+0131. The match ends at the first \<^verbatim>\<open>>\<close>.
\<close>

definition li_pattern :: "ustring \<Rightarrow> nat option" where
  "li_pattern s =
     (case s of
        lt # l # i # rest \<Rightarrow>
          if lt = 0x3C \<and> l \<in> {0x6C, 0x4C} \<and> i \<in> {0x69, 0x49, 0x130, 0x131} \<and>
             0x3E \<in> set rest
          then Some (3 + length (takeWhile (\<lambda>c. c \<noteq> 0x3E) rest) + 1)
          else None
      | _ \<Rightarrow> None)"

text \<open>\<^verbatim>\<open>_html_tag_pattern\<close>: \<^verbatim>\<open><[^>]+>\<close>.\<close>

definition html_tag_pattern :: "ustring \<Rightarrow> nat option" where
  "html_tag_pattern s =
     (case s of
        lt # x # rest \<Rightarrow>
          if lt = 0x3C \<and> x \<noteq> 0x3E \<and> 0x3E \<in> set rest
          then Some (2 + length (takeWhile (\<lambda>c. c \<noteq> 0x3E) rest) + 1)
          else None
      | _ \<Rightarrow> None)"

text \<open>\<^verbatim>\<open>_multi_space_pattern\<close>: \<^verbatim>\<open>[ \t]+\<close>.\<close>

definition multi_space_pattern :: "ustring \<Rightarrow> nat option" where
  "multi_space_pattern s =
     (let n = length (takeWhile (\<lambda>c. c = 0x20 \<or> c = 0x09) s)
      in if n = 0 then None else Some n)"

text \<open>
  \<^verbatim>\<open>_multi_newline_pattern\<close>: \<^verbatim>\<open>\n\s*\n+\<close>. After the first newline the greedy
  \<^verbatim>\<open>\s*\<close> takes the whole run of white space and gives back until a newline
  follows: the match ends with the last newline of the run.
\<close>

definition multi_newline_pattern :: "ustring \<Rightarrow> nat option" where
  "multi_newline_pattern s =
     (case s of
        [] \<Rightarrow> None
      | nl # rest \<Rightarrow>
          if nl = 0x0A then
            (let ws = takeWhile is_space rest
             in if 0x0A \<in> set ws
                then Some (1 + (length ws - length (takeWhile (\<lambda>c. c \<noteq> 0x0A) (rev ws))))
                else None)
          else None)"

section \<open>The standard library the module imports\<close>

text \<open>
  The module calls into Python's standard library. What is a small fixed algorithm
  (\<^verbatim>\<open>html.unescape\<close>, the fixed patterns above) is modelled in full; what rests on
  the Unicode database or on the regular-expression compiler is a parameter of the
  model, one field of \<open>pylib\<close> each:
  \<^item> \<open>html5\<close>: the table \<^verbatim>\<open>html.entities.html5\<close> of named character references;
  \<^item> \<open>str_lower\<close>, \<open>str_upper\<close>: \<^verbatim>\<open>str.lower\<close> and \<^verbatim>\<open>str.upper\<close>;
  \<^item> \<open>isalnum\<close>: \<^verbatim>\<open>str.isalnum\<close> on one code point (with \<^verbatim>\<open>_\<close>, the class \<^verbatim>\<open>\w\<close>);
  \<^item> \<open>re_sub_del\<close>: \<^verbatim>\<open>re.sub(pattern, '', text)\<close> for a pattern built from the
    caller's text: compiling the pattern raises or gives the substitution;
  \<^item> \<open>int_max_str_digits\<close>: \<^verbatim>\<open>sys.get_int_max_str_digits()\<close>, the longest string of
    decimal digits \<^verbatim>\<open>int\<close> converts. It is 4300 unless the interpreter is
    configured otherwise; 0 stands for no limit, which is also what a CPython older
    than the limit has, and the interpreter refuses a limit between 1 and 639.

  The exceptions that reach the caller of the module are those of the pattern compiler
  (\<^verbatim>\<open>re.error\<close>, and \<^verbatim>\<open>OverflowError\<close> or \<^verbatim>\<open>RecursionError\<close> for a pattern
  that is too large) and the \<^verbatim>\<open>ValueError\<close> of \<^verbatim>\<open>int\<close>.
\<close>

datatype py_error = ReError | OverflowError | RecursionError | ValueError

record pylib =
  html5 :: "ustring \<Rightarrow> ustring option"
  str_lower :: "ustring \<Rightarrow> ustring"
  str_upper :: "ustring \<Rightarrow> ustring"
  isalnum :: "nat \<Rightarrow> bool"
  re_sub_del :: "ustring \<Rightarrow> py_error + (ustring \<Rightarrow> ustring)"
  int_max_str_digits :: nat

subsection \<open>\<^verbatim>\<open>html.unescape\<close>\<close>

text \<open>
  As in CPython's \<^verbatim>\<open>html/__init__.py\<close>. \<^verbatim>\<open>_invalid_charrefs\<close> maps the numeric
  references that HTML 5 replaces, and \<^verbatim>\<open>_invalid_codepoints\<close> holds those it drops.
\<close>

definition invalid_charrefs :: "(nat \<times> ustring) list" where
  "invalid_charrefs =
     [(0x00, [0xFFFD]), (0x0D, [0x0D]), (0x80, [0x20AC]), (0x81, [0x81]), (0x82, [0x201A]),
      (0x83, [0x0192]), (0x84, [0x201E]), (0x85, [0x2026]), (0x86, [0x2020]),
      (0x87, [0x2021]), (0x88, [0x02C6]), (0x89, [0x2030]), (0x8A, [0x0160]),
      (0x8B, [0x2039]), (0x8C, [0x0152]), (0x8D, [0x8D]), (0x8E, [0x017D]), (0x8F, [0x8F]),
      (0x90, [0x90]), (0x91, [0x2018]), (0x92, [0x2019]), (0x93, [0x201C]), (0x94, [0x201D]),
      (0x95, [0x2022]), (0x96, [0x2013]), (0x97, [0x2014]), (0x98, [0x02DC]),
      (0x99, [0x2122]), (0x9A, [0x0161]), (0x9B, [0x203A]), (0x9C, [0x0153]),
      (0x9D, [0x9D]), (0x9E, [0x017E]), (0x9F, [0x0178])]"

definition invalid_codepoints :: "nat \<Rightarrow> bool" where
  "invalid_codepoints n \<longleftrightarrow>
     (0x1 \<le> n \<and> n \<le> 0x8) \<or> (0xE \<le> n \<and> n \<le> 0x1F) \<or> (0x7F \<le> n \<and> n \<le> 0x9F) \<or>
     (0xFDD0 \<le> n \<and> n \<le> 0xFDEF) \<or> n = 0xB \<or>
     (n \<le> 0x10FFFF \<and> n mod 0x10000 \<in> {0xFFFE, 0xFFFF})"

definition is_digit :: "nat \<Rightarrow> bool" where
  "is_digit c \<longleftrightarrow> 0x30 \<le> c \<and> c \<le> 0x39"

definition is_hexdigit :: "nat \<Rightarrow> bool" where
  "is_hexdigit c \<longleftrightarrow> is_digit c \<or> (0x61 \<le> c \<and> c \<le> 0x66) \<or> (0x41 \<le> c \<and> c \<le> 0x46)"

text \<open>The class \<^verbatim>\<open>[^\t\n\f <&#;]\<close> of the characters of a name.\<close>

definition name_char :: "nat \<Rightarrow> bool" where
  "name_char c \<longleftrightarrow> c \<notin> {0x09, 0x0A, 0x0C, 0x20, 0x3C, 0x26, 0x23, 0x3B}"

definition opt_semicolon :: "ustring \<Rightarrow> ustring" where
  "opt_semicolon s = (if take 1 s = [0x3B] then [0x3B] else [])"

text \<open>
  \<^verbatim>\<open>_charref\<close> behind an ampersand: group 1 of
  \<^verbatim>\<open>&(#[0-9]+;?|#[xX][0-9a-fA-F]+;?|[^\t\n\f <&#;]{1,32};?)\<close>
  at the text that follows the ampersand, or \<open>None\<close> when the pattern does not match.
\<close>

definition charref :: "ustring \<Rightarrow> ustring option" where
  "charref s =
     (case s of
        [] \<Rightarrow> None
      | c # cs \<Rightarrow>
          if c = 0x23 then
            (let ds = takeWhile is_digit cs in
             if ds \<noteq> [] then Some (c # ds @ opt_semicolon (dropWhile is_digit cs))
             else (case cs of
                     [] \<Rightarrow> None
                   | x # xs \<Rightarrow>
                       let hs = takeWhile is_hexdigit xs in
                       if x \<in> {0x78, 0x58} \<and> hs \<noteq> []
                       then Some (c # x # hs @ opt_semicolon (dropWhile is_hexdigit xs))
                       else None))
          else
            (let nm = takeWhile name_char (take 32 s) in
             if nm = [] then None else Some (nm @ opt_semicolon (drop (length nm) s))))"

text \<open>
  \<^verbatim>\<open>int(digits)\<close> and \<^verbatim>\<open>int(digits, 16)\<close> on digits the pattern has checked.
  \<^verbatim>\<open>int\<close> raises \<^verbatim>\<open>ValueError\<close> on more decimal digits than the interpreter's
  limit \<open>lim\<close>, leading zeros counted; base 16, a power of two, has no limit.
\<close>

definition digit_value :: "nat \<Rightarrow> nat" where
  "digit_value c =
     (if is_digit c then c - 0x30
      else if 0x61 \<le> c \<and> c \<le> 0x66 then c - 0x61 + 10
      else c - 0x41 + 10)"

definition int_of :: "nat \<Rightarrow> nat \<Rightarrow> ustring \<Rightarrow> py_error + nat" where
  "int_of lim base ds =
     (if base = 10 \<and> 0 < lim \<and> lim < length ds then Inl ValueError
      else Inr (foldl (\<lambda>n d. base * n + digit_value d) 0 ds))"

text \<open>
  The loop of \<^verbatim>\<open>_replace_charref\<close> that looks for the longest prefix of an unknown
  name that is a name: \<^verbatim>\<open>for x in range(len(s)-1, 1, -1)\<close>, and its \<^verbatim>\<open>else\<close>.
\<close>

fun longest_name :: "(ustring \<Rightarrow> ustring option) \<Rightarrow> ustring \<Rightarrow> nat \<Rightarrow> ustring" where
  "longest_name tbl s 0 = 0x26 # s"
| "longest_name tbl s (Suc 0) = 0x26 # s"
| "longest_name tbl s (Suc (Suc x)) =
     (case tbl (take (Suc (Suc x)) s) of
        Some v \<Rightarrow> v @ drop (Suc (Suc x)) s
      | None \<Rightarrow> longest_name tbl s (Suc x))"

text \<open>\<^verbatim>\<open>s.rstrip(';')\<close>\<close>

definition rstrip_semicolon :: "ustring \<Rightarrow> ustring" where
  "rstrip_semicolon s = rev (dropWhile (\<lambda>c. c = 0x3B) (rev s))"

text \<open>
  \<^verbatim>\<open>_replace_charref\<close> on group 1 of a match: a numeric reference (the tables of
  invalid references first), or a name looked up in \<^verbatim>\<open>html5\<close>. The call of
  \<^verbatim>\<open>int\<close> is not guarded: its \<^verbatim>\<open>ValueError\<close> leaves the function.
\<close>

definition replace_charref ::
  "nat \<Rightarrow> (ustring \<Rightarrow> ustring option) \<Rightarrow> ustring \<Rightarrow> py_error + ustring" where
  "replace_charref lim tbl s =
     (if take 1 s = [0x23] then
        (case (if take 1 (drop 1 s) = [0x78] \<or> take 1 (drop 1 s) = [0x58]
               then int_of lim 16 (rstrip_semicolon (drop 2 s))
               else int_of lim 10 (rstrip_semicolon (drop 1 s))) of
           Inl e \<Rightarrow> Inl e
         | Inr num \<Rightarrow>
             Inr (case map_of invalid_charrefs num of
                    Some r \<Rightarrow> r
                  | None \<Rightarrow>
                      if (0xD800 \<le> num \<and> num \<le> 0xDFFF) \<or> num > 0x10FFFF then [0xFFFD]
                      else if invalid_codepoints num then []
                      else [num]))
      else
        Inr (case tbl s of
               Some v \<Rightarrow> v
             | None \<Rightarrow> longest_name tbl s (length s - 1)))"

text \<open>
  \<^verbatim>\<open>_charref.sub(_replace_charref, s)\<close>: the matches are replaced from the left, and
  the first reference that \<^verbatim>\<open>_replace_charref\<close> raises on ends the substitution.
  \<^verbatim>\<open>unescape\<close> returns a string without an ampersand as it is.
\<close>

fun charref_sub ::
  "nat \<Rightarrow> (ustring \<Rightarrow> ustring option) \<Rightarrow> ustring \<Rightarrow> py_error + ustring" where
  "charref_sub lim tbl [] = Inr []"
| "charref_sub lim tbl (c # cs) =
     (if c = 0x26 then
        (case charref cs of
           None \<Rightarrow> map_sum id ((#) c) (charref_sub lim tbl cs)
         | Some g \<Rightarrow>
             (case replace_charref lim tbl g of
                Inl e \<Rightarrow> Inl e
              | Inr r \<Rightarrow> map_sum id ((@) r) (charref_sub lim tbl (drop (length g) cs))))
      else map_sum id ((#) c) (charref_sub lim tbl cs))"

definition unescape ::
  "nat \<Rightarrow> (ustring \<Rightarrow> ustring option) \<Rightarrow> ustring \<Rightarrow> py_error + ustring" where
  "unescape lim tbl s = (if 0x26 \<notin> set s then Inr s else charref_sub lim tbl s)"

section \<open>The tables of \<^verbatim>\<open>TextCleaner\<close>\<close>

text \<open>The literal \<^verbatim>\<open>QUOTES\<close>, code point by code point as the source file has it.\<close>

definition QUOTES :: ustring where
  "QUOTES =
     [0x22, 0x27, 0xAB, 0xBB, 0x201E, 0x22, 0x201F, 0x22, 0x27, 0x201B, 0x60, 0xB4,
      0x2033, 0x2032, 0x301D, 0x301E, 0xFF02]"

definition SPECIAL_SPACES :: "nat list" where
  "SPECIAL_SPACES =
     [0xA0, 0xA0, 0x2000, 0x2001, 0x2002, 0x2003, 0x2004, 0x2005, 0x2006, 0x2007, 0x2008,
      0x2009, 0x200A, 0x200B, 0x202F, 0x205F, 0x3000, 0xFEFF]"

definition DASHES :: "(ustring \<times> ustring) list" where
  "DASHES =
     [([0x2013], str ''-''), ([0x2014], str ''-''), ([0x2015], str ''-''),
      ([0x2010], str ''-''), ([0x2011], str ''-''), ([0x2012], str ''-''),
      ([0x2212], str ''-''), ([0x2043], str ''-''), ([0xFE63], str ''-''),
      ([0xFF0D], str ''-'')]"

definition HTML_ENTITIES :: "(ustring \<times> ustring) list" where
  "HTML_ENTITIES =
     [(str ''&nbsp;'', str '' ''), (str ''&amp;'', str ''&''), (str ''&lt;'', str ''<''),
      (str ''&gt;'', str ''>''), (str ''&quot;'', [0x22]), (str ''&apos;'', [0x27]),
      (str ''&#39;'', [0x27]), (str ''&#34;'', [0x22]), (str ''&mdash;'', str ''-''),
      (str ''&ndash;'', str ''-''), (str ''&bull;'', [0x2022]), (str ''&copy;'', [0xA9]),
      (str ''&reg;'', [0xAE]), (str ''&trade;'', [0x2122]), (str ''&euro;'', [0x20AC]),
      (str ''&pound;'', [0xA3]), (str ''&yen;'', [0xA5]), (str ''&cent;'', [0xA2]),
      (str ''&deg;'', [0xB0]), (str ''&plusmn;'', [0xB1]), (str ''&times;'', [0xD7]),
      (str ''&divide;'', [0xF7]), (str ''&frac12;'', [0xBD]), (str ''&frac14;'', [0xBC]),
      (str ''&frac34;'', [0xBE])]"

definition INVISIBLE_CHARS :: "nat list" where
  "INVISIBLE_CHARS =
     filter (\<lambda>i. i \<notin> {0x09, 0x0A, 0x0D}) [0..<32] @
     [0x200C, 0x200D, 0x2060, 0x2063, 0x2064, 0xFFFE, 0xFFFF, 0xFFFD]"

text \<open>
  The three patterns \<^verbatim>\<open>_compile_patterns\<close> builds from the tables are character
  classes of escaped literals: a code point matches when the table has it.
\<close>

definition quote_pattern :: "nat \<Rightarrow> bool" where
  "quote_pattern c \<longleftrightarrow> c \<in> set QUOTES"

definition special_space_pattern :: "nat \<Rightarrow> bool" where
  "special_space_pattern c \<longleftrightarrow> c \<in> set SPECIAL_SPACES"

definition invisible_pattern :: "nat \<Rightarrow> bool" where
  "invisible_pattern c \<longleftrightarrow> c \<in> set INVISIBLE_CHARS"

section \<open>\<^verbatim>\<open>TextCleaner\<close>\<close>

text \<open>The attributes \<^verbatim>\<open>__init__\<close> stores.\<close>

record cleaner =
  remove_quotes :: bool
  normalize_dashes :: bool
  normalize_spaces :: bool
  remove_html_tags :: bool
  decode_html_entities :: bool
  remove_invisible :: bool
  preserve_newlines :: bool
  lowercase :: bool
  max_length :: "int option"
  allowed_chars :: "ustring option"
  extra_remove :: ustring

text \<open>
  \<^verbatim>\<open>__init__\<close>, its eleven arguments in the order of the source. It stores them
  (\<^verbatim>\<open>extra_remove or ''\<close>) and compiles the patterns of the tables, which are fixed
  and valid; \<^verbatim>\<open>allowed_chars\<close> is stored as given and not compiled.
\<close>

definition TextCleaner ::
  "bool \<Rightarrow> bool \<Rightarrow> bool \<Rightarrow> bool \<Rightarrow> bool \<Rightarrow> bool \<Rightarrow> bool \<Rightarrow> bool \<Rightarrow>
   int option \<Rightarrow> ustring option \<Rightarrow> ustring option \<Rightarrow> py_error + cleaner" where
  "TextCleaner rq nd ns rt de ri pn lc ml ac er =
     Inr \<lparr>remove_quotes = rq, normalize_dashes = nd, normalize_spaces = ns,
          remove_html_tags = rt, decode_html_entities = de, remove_invisible = ri,
          preserve_newlines = pn, lowercase = lc, max_length = ml, allowed_chars = ac,
          extra_remove = (case er of None \<Rightarrow> [] | Some e \<Rightarrow> e)\<rparr>"

text \<open>The attributes of \<^verbatim>\<open>TextCleaner()\<close>, every argument at its default.\<close>

definition default_cleaner :: cleaner where
  "default_cleaner =
     \<lparr>remove_quotes = True, normalize_dashes = True, normalize_spaces = True,
      remove_html_tags = True, decode_html_entities = True, remove_invisible = True,
      preserve_newlines = False, lowercase = False, max_length = None,
      allowed_chars = None, extra_remove = []\<rparr>"

subsection \<open>The stages of \<^verbatim>\<open>clean\<close>\<close>

text \<open>
  1. \<^verbatim>\<open>html.unescape\<close>, then every key of \<^verbatim>\<open>HTML_ENTITIES\<close> in the table's order.
  The call of \<^verbatim>\<open>html.unescape\<close> is not guarded: the stage raises when it does.
\<close>

definition decode_stage :: "pylib \<Rightarrow> cleaner \<Rightarrow> ustring \<Rightarrow> py_error + ustring" where
  "decode_stage L c t =
     (if decode_html_entities c
      then (case unescape (int_max_str_digits L) (html5 L) t of
              Inl e \<Rightarrow> Inl e
            | Inr u \<Rightarrow>
                Inr (foldl (\<lambda>t (entity, replacement). str_replace entity replacement t)
                       u HTML_ENTITIES))
      else Inr t)"

text \<open>2. The three structural tags, then every other tag.\<close>

definition tag_stage :: "cleaner \<Rightarrow> ustring \<Rightarrow> ustring" where
  "tag_stage c t =
     (if remove_html_tags c
      then re_sub html_tag_pattern []
             (re_sub li_pattern [0x0A, 0x2022, 0x20]
               (re_sub p_pattern [0x0A]
                 (re_sub br_pattern [0x0A] t)))
      else t)"

text \<open>
  3. to 6. One pass each over the code points: those of \<^verbatim>\<open>INVISIBLE_CHARS\<close> are
  deleted, those of \<^verbatim>\<open>SPECIAL_SPACES\<close> and of \<^verbatim>\<open>QUOTES\<close> become a space, and
  every key of \<^verbatim>\<open>DASHES\<close>, in the table's order, is replaced by its hyphen.
\<close>

definition invisible_stage :: "cleaner \<Rightarrow> ustring \<Rightarrow> ustring" where
  "invisible_stage c t = (if remove_invisible c then sub_chars invisible_pattern [] t else t)"

definition space_stage :: "cleaner \<Rightarrow> ustring \<Rightarrow> ustring" where
  "space_stage c t =
     (if normalize_spaces c then sub_chars special_space_pattern [0x20] t else t)"

definition dash_stage :: "cleaner \<Rightarrow> ustring \<Rightarrow> ustring" where
  "dash_stage c t =
     (if normalize_dashes c
      then foldl (\<lambda>t (dash, replacement). str_replace dash replacement t) t DASHES
      else t)"

definition quote_stage :: "cleaner \<Rightarrow> ustring \<Rightarrow> ustring" where
  "quote_stage c t = (if remove_quotes c then sub_chars quote_pattern [0x20] t else t)"

text \<open>
  7. The pattern is the class of the escaped \<^verbatim>\<open>extra_remove\<close>: \<^verbatim>\<open>re.escape\<close> makes
  every code point of it a literal.
\<close>

definition extra_stage :: "cleaner \<Rightarrow> ustring \<Rightarrow> ustring" where
  "extra_stage c t =
     (if extra_remove c \<noteq> [] then sub_chars (\<lambda>x. x \<in> set (extra_remove c)) [] t else t)"

text \<open>
  8. The pattern is \<^verbatim>\<open>'[^' + allowed_chars + ']'\<close>, compiled here, on every call;
  the stage raises when it does not compile.
\<close>

definition allowed_stage :: "pylib \<Rightarrow> cleaner \<Rightarrow> ustring \<Rightarrow> py_error + ustring" where
  "allowed_stage L c t =
     (case allowed_chars c of
        None \<Rightarrow> Inr t
      | Some a \<Rightarrow>
          if a = [] then Inr t
          else (case re_sub_del L (str ''[^'' @ a @ str '']'') of
                  Inl e \<Rightarrow> Inl e
                | Inr f \<Rightarrow> Inr (f t)))"

text \<open>9. White space, in one of two ways.\<close>

definition whitespace_stage :: "cleaner \<Rightarrow> ustring \<Rightarrow> ustring" where
  "whitespace_stage c t =
     (if preserve_newlines c
      then join [0x0A]
             (map strip
               (split_on 0x0A
                 (re_sub multi_newline_pattern [0x0A, 0x0A]
                   (re_sub multi_space_pattern [0x20] t))))
      else re_sub multi_space_pattern [0x20]
             (str_replace [0x0D] [0x20] (str_replace [0x0A] [0x20] t)))"

text \<open>10. \<^verbatim>\<open>text.lower()\<close>, the library's.\<close>

definition lowercase_stage :: "pylib \<Rightarrow> cleaner \<Rightarrow> ustring \<Rightarrow> ustring" where
  "lowercase_stage L c t = (if lowercase c then str_lower L t else t)"

text \<open>
  12. \<^verbatim>\<open>if self.max_length and len(text) > self.max_length\<close>: neither \<^verbatim>\<open>None\<close> nor
  0 truncates.
\<close>

definition truncate_stage :: "cleaner \<Rightarrow> ustring \<Rightarrow> ustring" where
  "truncate_stage c t =
     (case max_length c of
        None \<Rightarrow> t
      | Some m \<Rightarrow>
          if m \<noteq> 0 \<and> int (length t) > m
          then rsplit1_head 0x20 (slice_to t m) @ str ''...''
          else t)"

text \<open>
  \<^verbatim>\<open>clean\<close> on a string. (The source first turns \<^verbatim>\<open>None\<close> into the empty string
  and any other value into its \<^verbatim>\<open>str()\<close>.) The empty string is returned at once.
  Stages 1 to 8 run in order; stage 1 and stage 8 can raise, and nothing in
  \<^verbatim>\<open>clean\<close> catches an exception. Then come 9 and 10, \<^verbatim>\<open>strip\<close> (11) and the
  truncation (12).
\<close>

definition clean :: "pylib \<Rightarrow> cleaner \<Rightarrow> ustring \<Rightarrow> py_error + ustring" where
  "clean L c t =
     (if t = [] then Inr []
      else
        (case decode_stage L c t of
           Inl e \<Rightarrow> Inl e
         | Inr t1 \<Rightarrow>
             (case allowed_stage L c
                     (extra_stage c (quote_stage c (dash_stage c (space_stage c
                       (invisible_stage c (tag_stage c t1)))))) of
                Inl e \<Rightarrow> Inl e
              | Inr t8 \<Rightarrow>
                  Inr (truncate_stage c
                        (strip (lowercase_stage L c (whitespace_stage c t8)))))))"

subsection \<open>The specialised methods\<close>

text \<open>\<^verbatim>\<open>clean_sku\<close>; the pattern is \<^verbatim>\<open>[^\w\-.]\<close>.\<close>

definition sku_char :: "pylib \<Rightarrow> nat \<Rightarrow> bool" where
  "sku_char L x \<longleftrightarrow> isalnum L x \<or> x = 0x5F \<or> x = 0x2D \<or> x = 0x2E"

definition clean_sku :: "pylib \<Rightarrow> cleaner \<Rightarrow> ustring \<Rightarrow> py_error + ustring" where
  "clean_sku L c t =
     (if t = [] then Inr []
      else (case clean L c t of
              Inl e \<Rightarrow> Inl e
            | Inr t1 \<Rightarrow> Inr (str_upper L (sub_chars (\<lambda>x. \<not> sku_char L x) [] t1))))"

text \<open>\<^verbatim>\<open>clean_email\<close>; it reads none of the attributes.\<close>

definition clean_email :: "pylib \<Rightarrow> ustring \<Rightarrow> ustring" where
  "clean_email L t =
     (if t = [] then []
      else sub_chars special_space_pattern []
             (sub_chars invisible_pattern [] (str_lower L (strip t))))"

text \<open>\<^verbatim>\<open>truncate(text, max_length, suffix)\<close>\<close>

definition truncate :: "ustring \<Rightarrow> int \<Rightarrow> ustring \<Rightarrow> ustring" where
  "truncate t m suffix =
     (if t = [] \<or> int (length t) \<le> m then t
      else rsplit1_head 0x20 (slice_to t m) @ suffix)"

section \<open>A library for evaluation\<close>

text \<open>
  To evaluate the model on a concrete input the parameters need values. \<open>py\<close> gives
  each of them the part of CPython's behaviour that the inputs evaluated in this theory
  reach:
  \<^item> \<open>html5\<close>: the entries of \<^verbatim>\<open>html.entities.html5\<close> for the names that are keys of
    \<^verbatim>\<open>HTML_ENTITIES\<close>, with and (where the table has it) without the semicolon;
  \<^item> \<open>str_lower\<close>, \<open>str_upper\<close>, \<open>isalnum\<close>: CPython's on ASCII; a code point beyond
    ASCII is left as it is and is no word character;
  \<^item> \<open>re_sub_del\<close>: the patterns \<^verbatim>\<open>[^...]\<close> whose class body is made of literal code
    points and ranges \<^verbatim>\<open>a-b\<close>; as in \<^verbatim>\<open>re\<close>, a range whose end is below its start
    is an error;
  \<^item> \<open>int_max_str_digits\<close>: 4300, the default.
  Every theorem that is not an evaluation at a concrete input is stated for an
  arbitrary library \<open>L\<close>.
\<close>

definition html5_excerpt :: "(string \<times> ustring) list" where
  "html5_excerpt =
     [(''nbsp;'', [0xA0]), (''nbsp'', [0xA0]), (''amp;'', [0x26]), (''amp'', [0x26]),
      (''lt;'', [0x3C]), (''lt'', [0x3C]), (''gt;'', [0x3E]), (''gt'', [0x3E]),
      (''quot;'', [0x22]), (''quot'', [0x22]), (''apos;'', [0x27]), (''mdash;'', [0x2014]),
      (''ndash;'', [0x2013]), (''bull;'', [0x2022]), (''copy;'', [0xA9]), (''copy'', [0xA9]),
      (''reg;'', [0xAE]), (''reg'', [0xAE]), (''trade;'', [0x2122]), (''euro;'', [0x20AC]),
      (''pound;'', [0xA3]), (''pound'', [0xA3]), (''yen;'', [0xA5]), (''yen'', [0xA5]),
      (''cent;'', [0xA2]), (''cent'', [0xA2]), (''deg;'', [0xB0]), (''deg'', [0xB0]),
      (''plusmn;'', [0xB1]), (''plusmn'', [0xB1]), (''times;'', [0xD7]), (''times'', [0xD7]),
      (''divide;'', [0xF7]), (''divide'', [0xF7]), (''frac12;'', [0xBD]), (''frac12'', [0xBD]),
      (''frac14;'', [0xBC]), (''frac14'', [0xBC]), (''frac34;'', [0xBE]), (''frac34'', [0xBE])]"

definition ascii_lower :: "ustring \<Rightarrow> ustring" where
  "ascii_lower s = map (\<lambda>c. if 0x41 \<le> c \<and> c \<le> 0x5A then c + 0x20 else c) s"

definition ascii_upper :: "ustring \<Rightarrow> ustring" where
  "ascii_upper s = map (\<lambda>c. if 0x61 \<le> c \<and> c \<le> 0x7A then c - 0x20 else c) s"

definition ascii_alnum :: "nat \<Rightarrow> bool" where
  "ascii_alnum c \<longleftrightarrow>
     (0x30 \<le> c \<and> c \<le> 0x39) \<or> (0x41 \<le> c \<and> c \<le> 0x5A) \<or> (0x61 \<le> c \<and> c \<le> 0x7A)"

fun class_ranges :: "ustring \<Rightarrow> py_error + (nat \<times> nat) list" where
  "class_ranges (lo # d # hi # r) =
     (if d = 0x2D then
        (if hi < lo then Inl ReError
         else (case class_ranges r of
                 Inl e \<Rightarrow> Inl e
               | Inr rs \<Rightarrow> Inr ((lo, hi) # rs)))
      else (case class_ranges (d # hi # r) of
              Inl e \<Rightarrow> Inl e
            | Inr rs \<Rightarrow> Inr ((lo, lo) # rs)))"
| "class_ranges (x # r) =
     (case class_ranges r of
        Inl e \<Rightarrow> Inl e
      | Inr rs \<Rightarrow> Inr ((x, x) # rs))"
| "class_ranges [] = Inr []"

definition simple_negated_class :: "ustring \<Rightarrow> py_error + (ustring \<Rightarrow> ustring)" where
  "simple_negated_class p =
     (if take 2 p = str ''[^'' \<and> 3 \<le> length p \<and> last p = 0x5D \<and>
         list_all (\<lambda>x. x \<notin> {0x5B, 0x5C, 0x5D, 0x5E}) (butlast (drop 2 p))
      then (case class_ranges (butlast (drop 2 p)) of
              Inl e \<Rightarrow> Inl e
            | Inr rs \<Rightarrow>
                Inr (sub_chars (\<lambda>x. \<not> list_ex (\<lambda>(lo, hi). lo \<le> x \<and> x \<le> hi) rs) []))
      else Inl ReError)"

definition py :: pylib where
  "py = \<lparr>html5 = map_of (map (\<lambda>(k, v). (str k, v)) html5_excerpt),
         str_lower = ascii_lower, str_upper = ascii_upper, isalnum = ascii_alnum,
         re_sub_del = simple_negated_class, int_max_str_digits = 4300\<rparr>"

section \<open>Settled strings\<close>

text \<open>
  What the proofs about a second run of \<^verbatim>\<open>clean\<close> say of a string. \<open>tagless\<close>: no
  \<^verbatim>\<open><\<close> is followed by a code point other than \<^verbatim>\<open>>\<close> and, later, by a
  \<^verbatim>\<open>>\<close>, so none of the tag patterns matches anywhere.
\<close>

fun tagless :: "ustring \<Rightarrow> bool" where
  "tagless [] = True"
| "tagless (c # cs) = ((c = 0x3C \<longrightarrow> take 1 cs = [0x3E] \<or> 0x3E \<notin> set cs) \<and> tagless cs)"


text \<open>The keys of \<^verbatim>\<open>DASHES\<close>, each one code point.\<close>

definition dash_key :: "nat \<Rightarrow> bool" where
  "dash_key x \<longleftrightarrow> [x] \<in> set (map fst DASHES)"

text \<open>
  A code point that stages 3 to 6 leave alone, one that stage 7 leaves alone as well,
  and the five stages in one.
\<close>

definition tame :: "cleaner \<Rightarrow> nat \<Rightarrow> bool" where
  "tame c x \<longleftrightarrow>
     (remove_invisible c \<longrightarrow> \<not> invisible_pattern x) \<and>
     (normalize_spaces c \<longrightarrow> \<not> special_space_pattern x) \<and>
     (normalize_dashes c \<longrightarrow> \<not> dash_key x) \<and>
     (remove_quotes c \<longrightarrow> \<not> quote_pattern x)"

definition good_char :: "cleaner \<Rightarrow> nat \<Rightarrow> bool" where
  "good_char c x \<longleftrightarrow> tame c x \<and> x \<notin> set (extra_remove c)"

definition char_stages :: "cleaner \<Rightarrow> ustring \<Rightarrow> ustring" where
  "char_stages c t =
     extra_stage c (quote_stage c (dash_stage c (space_stage c (invisible_stage c t))))"











section \<open>Long character references\<close>


section \<open>Evaluation\<close>

text \<open>The definitions the simplifier unfolds to run the model on a concrete input.\<close>

lemmas eval_defs =
  str_def is_space_def lstrip_def rstrip_def strip_def rsplit1_head_def slice_to_def
  sub_chars_def slash_gt_def br_pattern_def p_pattern_def li_pattern_def
  html_tag_pattern_def multi_space_pattern_def multi_newline_pattern_def
  invalid_charrefs_def invalid_codepoints_def is_digit_def is_hexdigit_def name_char_def
  opt_semicolon_def charref_def digit_value_def int_of_def rstrip_semicolon_def
  replace_charref_def
  unescape_def QUOTES_def SPECIAL_SPACES_def DASHES_def HTML_ENTITIES_def
  INVISIBLE_CHARS_def quote_pattern_def special_space_pattern_def invisible_pattern_def
  TextCleaner_def default_cleaner_def decode_stage_def tag_stage_def invisible_stage_def
  space_stage_def dash_stage_def quote_stage_def extra_stage_def allowed_stage_def
  whitespace_stage_def lowercase_stage_def truncate_stage_def clean_def sku_char_def
  clean_sku_def clean_email_def truncate_def html5_excerpt_def ascii_lower_def
  ascii_upper_def ascii_alnum_def simple_negated_class_def py_def Let_def

section \<open>Cutting at the last space\<close>

lemma dropWhile_skip:
  "sep \<notin> set xs \<Longrightarrow> dropWhile (\<lambda>c. c \<noteq> sep) (xs @ sep # ys) = sep # ys"
  by (induction xs) auto

lemma rsplit1_head_last_sep:
  "sep \<notin> set b \<Longrightarrow> rsplit1_head sep (a @ sep # b) = a"
proof -
  assume nb: "sep \<notin> set b"
  have "dropWhile (\<lambda>c. c \<noteq> sep) (rev b @ sep # rev a) = sep # rev a"
    using nb by (simp add: dropWhile_skip)
  then show ?thesis
    by (simp add: rsplit1_head_def)
qed

lemma rsplit1_head_no_sep: "sep \<notin> set s \<Longrightarrow> rsplit1_head sep s = s"
  by (simp add: rsplit1_head_def)

text \<open>
  C10. \<^verbatim>\<open>truncate\<close> can drop all of the text: when the text is longer than
  \<open>max_length\<close> and, among its first \<open>max_length\<close> code points, the one at position 0
  is a space and no other is, \<^verbatim>\<open>truncate(text, max_length, suffix)\<close> is the suffix
  alone. So \<^verbatim>\<open>truncate(' abcdef', 3)\<close> is \<^verbatim>\<open>'...'\<close>.
\<close>

theorem truncate_only_leading_space:
  assumes long: "int (length t) > m"
    and pos: "0 < m"
    and only0: "\<forall>i < nat m. (t ! i = 0x20) = (i = 0)"
  shows "truncate t m suffix = suffix"
proof -
  define x where "x = take (nat m) t"
  have len_x: "length x = nat m"
    using long pos by (simp add: x_def)
  then have "x \<noteq> []" using pos by auto
  then obtain h r where x: "x = h # r" by (cases x) auto
  have nth: "\<And>i. i < nat m \<Longrightarrow> x ! i = t ! i"
    by (simp add: x_def)
  have "h = 0x20"
    using only0 nth[of 0] pos x by auto
  moreover have "0x20 \<notin> set r"
  proof
    assume "0x20 \<in> set r"
    then obtain j where j: "j < length r" "r ! j = 0x20"
      by (auto simp: in_set_conv_nth)
    then have "Suc j < nat m" using len_x x by simp
    moreover have "t ! Suc j = 0x20" using nth[OF calculation] x j by simp
    ultimately show False using only0 by auto
  qed
  ultimately have "rsplit1_head 0x20 x = []"
    using rsplit1_head_last_sep[of "0x20" r "[]"] x by simp
  moreover have "t \<noteq> []" "\<not> int (length t) \<le> m" "slice_to t m = x"
    using long pos by (auto simp: slice_to_def x_def)
  ultimately show ?thesis
    by (simp add: truncate_def)
qed

theorem truncate_only_leading_space_witness:
  "truncate (str '' abcdef'') 3 (str ''...'') = str ''...''"
proof -
  have "\<forall>i < nat 3. (str '' abcdef'' ! i = 0x20) = (i = 0)"
    by (auto simp: str_def nth_Cons' less_Suc_eq numeral_3_eq_3)
  then show ?thesis
    using truncate_only_leading_space[of 3 "str '' abcdef''" "str ''...''"]
    by (simp add: str_def)
qed

section \<open>The examples of the specification\<close>

text \<open>
  C2. The specification has \<^verbatim>\<open>QUOTES\<close> hold every quotation mark, the curly ones
  U+2018, U+2019, U+201C and U+201D among them, so that \<^verbatim>\<open>clean\<close> with
  \<^verbatim>\<open>remove_quotes\<close> leaves none in its output. The literal of the source holds ASCII
  quotes where its comments announce the curly ones: the four are not in the table,
  and the default cleaner returns a string in curly double quotes as it is.
\<close>

theorem curly_quotes_survive:
  "0x2018 \<notin> set QUOTES \<and> 0x2019 \<notin> set QUOTES \<and>
   0x201C \<notin> set QUOTES \<and> 0x201D \<notin> set QUOTES \<and>
   clean py default_cleaner ([0x201C] @ str ''hi'' @ [0x201D])
     = Inr ([0x201C] @ str ''hi'' @ [0x201D])"
  by (simp add: eval_defs)

text \<open>
  C5. The specification has the entity stage turn \<^verbatim>\<open>&nbsp;\<close> into an ASCII space
  whatever the other flags are. \<^verbatim>\<open>html.unescape\<close> runs first and makes it U+00A0, so
  the entry \<^verbatim>\<open>'&nbsp;': ' '\<close> of \<^verbatim>\<open>HTML_ENTITIES\<close> finds nothing to replace:
  with \<^verbatim>\<open>normalize_spaces=False\<close>, \<^verbatim>\<open>clean('a&nbsp;b')\<close> has U+00A0 between the
  letters.
\<close>

theorem nbsp_entity_stays_nbsp:
  "decode_stage py (default_cleaner\<lparr>normalize_spaces := False\<rparr>) (str ''a&nbsp;b'')
     = Inr [0x61, 0xA0, 0x62] \<and>
   clean py (default_cleaner\<lparr>normalize_spaces := False\<rparr>) (str ''a&nbsp;b'')
     = Inr [0x61, 0xA0, 0x62]"
  by (simp add: eval_defs)

text \<open>
  C6, as the specification states it, fails: \<^verbatim>\<open>clean\<close> with
  \<^verbatim>\<open>preserve_newlines=True\<close> does not make two lines of
  \<^verbatim>\<open><p>Hello &amp; welcome</p><br>Next line\<close>.
\<close>

theorem paragraph_example_two_lines_counterexample:
  "map_sum id (split_on 0x0A)
     (clean py (default_cleaner\<lparr>preserve_newlines := True\<rparr>)
        (str ''<p>Hello &amp; welcome</p><br>Next line''))
   \<noteq> Inr [str ''Hello & welcome'', str ''Next line'']"
  by (simp add: eval_defs)

text \<open>
  C6, amended. The closing \<^verbatim>\<open></p>\<close> and the \<^verbatim>\<open><br>\<close> each become a newline, and
  two newlines are what \<^verbatim>\<open>_multi_newline_pattern\<close> keeps of a run: the result has
  three lines, \<^verbatim>\<open>Hello & welcome\<close>, an empty one and \<^verbatim>\<open>Next line\<close>.
\<close>

theorem paragraph_example_three_lines:
  "clean py (default_cleaner\<lparr>preserve_newlines := True\<rparr>)
     (str ''<p>Hello &amp; welcome</p><br>Next line'')
   = Inr (str ''Hello & welcome'' @ [0x0A, 0x0A] @ str ''Next line'') \<and>
   split_on 0x0A (str ''Hello & welcome'' @ [0x0A, 0x0A] @ str ''Next line'')
   = [str ''Hello & welcome'', [], str ''Next line'']"
  by (simp add: eval_defs)

text \<open>
  X1. Under every configuration \<^verbatim>\<open>clean('')\<close> is the empty string, and nothing is
  raised: the empty string is returned before any stage runs.
\<close>

theorem clean_empty: "clean L c [] = Inr []"
  by (simp add: clean_def)

text \<open>
  X2. Quotes become spaces, so the words stay apart: the default cleaner makes
  \<^verbatim>\<open>He said hi to her\<close> of \<^verbatim>\<open>He said "hi" to "her"\<close>.
\<close>

theorem quotes_keep_words_apart:
  "clean py default_cleaner
     (str ''He said '' @ [0x22] @ str ''hi'' @ [0x22] @ str '' to '' @ [0x22] @ str ''her'' @ [0x22])
   = Inr (str ''He said hi to her'')"
  by (simp add: eval_defs)

text \<open>
  X3. Every dash becomes a hyphen: the default cleaner makes \<^verbatim>\<open>2020-2021 - done\<close> of
  the same text written with an en dash and an em dash.
\<close>

theorem dashes_become_hyphens:
  "clean py default_cleaner (str ''2020'' @ [0x2013] @ str ''2021 '' @ [0x2014] @ str '' done'')
   = Inr (str ''2020-2021 - done'')"
  by (simp add: eval_defs)

section \<open>Errors\<close>
















section \<open>\<^verbatim>\<open>clean_sku\<close>\<close>

lemma sub_chars_delete: "sub_chars (\<lambda>x. \<not> P x) [] s = filter P s"
  by (induction s) (auto simp: sub_chars_def)

text \<open>
  C8. On every string \<^verbatim>\<open>clean_sku\<close> is \<^verbatim>\<open>clean\<close> under the cleaner's own
  attributes, then the deletion of every code point that is neither a word character
  (alphanumeric or underscore) nor a hyphen nor a dot, then \<^verbatim>\<open>upper\<close>; an error of
  \<^verbatim>\<open>clean\<close> passes through. The early return on the empty string agrees with the
  composition because \<^verbatim>\<open>''.upper()\<close> is empty. So
  \<^verbatim>\<open>clean_sku('sku-123_ABC!')\<close> is \<^verbatim>\<open>'SKU-123_ABC'\<close>.
\<close>

theorem clean_sku_composition:
  "(str_upper L [] = [] \<longrightarrow>
      clean_sku L c t =
        (case clean L c t of
           Inl e \<Rightarrow> Inl e
         | Inr t1 \<Rightarrow>
             Inr (str_upper L
                   (filter (\<lambda>x. isalnum L x \<or> x = 0x5F \<or> x = 0x2D \<or> x = 0x2E) t1)))) \<and>
   clean_sku py default_cleaner (str ''sku-123_ABC!'') = Inr (str ''SKU-123_ABC'')"
proof
  have keep: "sku_char L = (\<lambda>x. isalnum L x \<or> x = 0x5F \<or> x = 0x2D \<or> x = 0x2E)"
    by (simp add: sku_char_def fun_eq_iff)
  have empty: "clean L c [] = Inr []"
    by (simp add: clean_def)
  show "str_upper L [] = [] \<longrightarrow>
      clean_sku L c t =
        (case clean L c t of
           Inl e \<Rightarrow> Inl e
         | Inr t1 \<Rightarrow>
             Inr (str_upper L
                   (filter (\<lambda>x. isalnum L x \<or> x = 0x5F \<or> x = 0x2D \<or> x = 0x2E) t1)))"
    unfolding keep[symmetric]
    by (cases "t = []")
      (simp_all add: clean_sku_def sub_chars_delete empty split: sum.splits)
  show "clean_sku py default_cleaner (str ''sku-123_ABC!'') = Inr (str ''SKU-123_ABC'')"
    by (simp add: eval_defs)
qed

theorem clean_sku_composition_witness:
  "str_upper py [] = [] \<and>
   clean_sku py default_cleaner (str ''sku-123_ABC!'') =
     (case clean py default_cleaner (str ''sku-123_ABC!'') of
        Inl e \<Rightarrow> Inl e
      | Inr t1 \<Rightarrow>
          Inr (str_upper py
                (filter (\<lambda>x. isalnum py x \<or> x = 0x5F \<or> x = 0x2D \<or> x = 0x2E) t1)))"
proof -
  have up: "str_upper py [] = []"
    by (simp add: py_def ascii_upper_def)
  with clean_sku_composition[of py default_cleaner "str ''sku-123_ABC!''"]
  show ?thesis by blast
qed

section \<open>The code points of the output\<close>

lemma str_replace_single:
  "str_replace [a] [b] s = map (\<lambda>c. if c = a then b else c) s"
  by (induction s) auto

lemma set_re_sub: "set (re_sub m repl s) \<subseteq> set repl \<union> set s"
proof (induction m repl s rule: re_sub.induct)
  case (1 m repl)
  then show ?case by simp
next
  case (2 m repl c cs)
  show ?case
  proof (cases "m (c # cs)")
    case None
    with 2 show ?thesis by auto
  next
    case (Some n)
    with 2 have "set (re_sub m repl (drop (n - 1) cs)) \<subseteq> set repl \<union> set (drop (n - 1) cs)"
      by simp
    moreover have "set (drop (n - 1) cs) \<subseteq> set cs"
      by (rule set_drop_subset)
    ultimately show ?thesis using Some by auto
  qed
qed

lemma set_lstrip: "set (lstrip s) \<subseteq> set s"
  unfolding lstrip_def by (meson set_dropWhileD subsetI)

lemma set_rstrip: "set (rstrip s) \<subseteq> set s"
proof -
  have "set (dropWhile is_space (rev s)) \<subseteq> set (rev s)"
    by (meson set_dropWhileD subsetI)
  then show ?thesis by (simp add: rstrip_def)
qed

lemma set_strip: "set (strip s) \<subseteq> set s"
  using set_lstrip[of s] set_rstrip[of "lstrip s"] by (auto simp: strip_def)

lemma set_slice_to: "set (slice_to s n) \<subseteq> set s"
  by (simp add: slice_to_def set_take_subset)

lemma set_rsplit1_head: "set (rsplit1_head sep s) \<subseteq> set s"
proof (cases "sep \<in> set s")
  case True
  then obtain a b where "s = a @ sep # b" "sep \<notin> set b"
    by (meson split_list_last)
  then show ?thesis by (auto simp: rsplit1_head_last_sep)
next
  case False
  then show ?thesis by (simp add: rsplit1_head_no_sep)
qed

lemma set_truncate_stage: "set (truncate_stage c s) \<subseteq> set s \<union> {0x2E}"
  using set_rsplit1_head[of "0x20" "slice_to s m" for m] set_slice_to[of s]
  by (auto simp: truncate_stage_def str_def split: option.splits)

lemma whitespace_stage_single_line:
  assumes "\<not> preserve_newlines c"
  shows "0x0A \<notin> set (whitespace_stage c s) \<and> 0x0D \<notin> set (whitespace_stage c s)"
proof -
  let ?u = "str_replace [0x0D] [0x20] (str_replace [0x0A] [0x20] s)"
  have "0x0A \<notin> set ?u \<and> 0x0D \<notin> set ?u"
    by (auto simp: str_replace_single)
  moreover have "set (re_sub multi_space_pattern [0x20] ?u) \<subseteq> {0x20} \<union> set ?u"
    using set_re_sub[of multi_space_pattern "[0x20]" ?u] by simp
  ultimately show ?thesis
    using assms by (auto simp: whitespace_stage_def)
qed

text \<open>
  C7. With \<^verbatim>\<open>preserve_newlines=False\<close> the string \<^verbatim>\<open>clean\<close> returns has neither a
  newline nor a carriage return, for every input and whatever the other attributes
  are. Stage 9 replaces them all; of what follows, only \<^verbatim>\<open>lower\<close> is not modelled,
  and the theorem takes from the library that lowercasing a string without the two code
  points yields none of them.
\<close>

theorem clean_single_line:
  assumes single: "\<not> preserve_newlines c"
    and lower: "lowercase c \<longrightarrow>
      (\<forall>x. 0x0A \<notin> set x \<and> 0x0D \<notin> set x \<longrightarrow>
           0x0A \<notin> set (str_lower L x) \<and> 0x0D \<notin> set (str_lower L x))"
  shows "\<forall>r. clean L c t = Inr r \<longrightarrow> 0x0A \<notin> set r \<and> 0x0D \<notin> set r"
proof -
  have "0x0A \<notin> set r \<and> 0x0D \<notin> set r" if res: "clean L c t = Inr r" for r
  proof (cases "t = []")
    case True
    with res show ?thesis by (simp add: clean_def)
  next
    case False
    with res obtain t8 where
      r: "r = truncate_stage c (strip (lowercase_stage L c (whitespace_stage c t8)))"
      by (auto simp: clean_def split: sum.splits)
    let ?w = "whitespace_stage c t8"
    have w: "0x0A \<notin> set ?w \<and> 0x0D \<notin> set ?w"
      using single by (rule whitespace_stage_single_line)
    then have l: "0x0A \<notin> set (lowercase_stage L c ?w) \<and> 0x0D \<notin> set (lowercase_stage L c ?w)"
      using lower by (simp add: lowercase_stage_def)
    then have "0x0A \<notin> set (strip (lowercase_stage L c ?w)) \<and>
               0x0D \<notin> set (strip (lowercase_stage L c ?w))"
      using set_strip by blast
    then show ?thesis
      using set_truncate_stage[of c "strip (lowercase_stage L c ?w)"] r by auto
  qed
  then show ?thesis
    by blast
qed

theorem clean_single_line_witness:
  "\<not> preserve_newlines (default_cleaner\<lparr>lowercase := True\<rparr>) \<and>
   clean py (default_cleaner\<lparr>lowercase := True\<rparr>) [0x41, 0x0A, 0x62, 0x0D, 0x0A, 0x43]
     = Inr (str ''a b c'') \<and>
   0x0A \<notin> set (str ''a b c'') \<and> 0x0D \<notin> set (str ''a b c'')"
proof -
  have h1: "\<not> preserve_newlines (default_cleaner\<lparr>lowercase := True\<rparr>)"
    by (simp add: default_cleaner_def)
  have h2: "lowercase (default_cleaner\<lparr>lowercase := True\<rparr>) \<longrightarrow>
      (\<forall>x. 0x0A \<notin> set x \<and> 0x0D \<notin> set x \<longrightarrow>
           0x0A \<notin> set (str_lower py x) \<and> 0x0D \<notin> set (str_lower py x))"
    by (auto simp: py_def ascii_lower_def)
  have h3: "clean py (default_cleaner\<lparr>lowercase := True\<rparr>) [0x41, 0x0A, 0x62, 0x0D, 0x0A, 0x43]
              = Inr (str ''a b c'')"
    by (simp add: eval_defs)
  from clean_single_line[OF h1 h2] h1 h3 show ?thesis by simp
qed

section \<open>Truncation in \<^verbatim>\<open>clean\<close>\<close>

lemma rsplit1_head_cut:
  assumes "sep \<in> set x"
  shows "\<exists>k < length x. rsplit1_head sep x = take k x \<and> x ! k = sep \<and>
           sep \<notin> set (drop (Suc k) x)"
proof -
  from assms obtain a b where x: "x = a @ sep # b" and nb: "sep \<notin> set b"
    by (meson split_list_last)
  have "length a < length x" "take (length a) x = a" "x ! length a = sep"
       "drop (Suc (length a)) x = b"
    using x by simp_all
  moreover have "rsplit1_head sep x = a"
    using rsplit1_head_last_sep[OF nb, of a] x by simp
  ultimately show ?thesis
    using nb by (intro exI[of _ "length a"]) simp
qed

lemma stages_ignore_max_length:
  "decode_stage L (c\<lparr>max_length := x\<rparr>) = decode_stage L c"
  "tag_stage (c\<lparr>max_length := x\<rparr>) = tag_stage c"
  "invisible_stage (c\<lparr>max_length := x\<rparr>) = invisible_stage c"
  "space_stage (c\<lparr>max_length := x\<rparr>) = space_stage c"
  "dash_stage (c\<lparr>max_length := x\<rparr>) = dash_stage c"
  "quote_stage (c\<lparr>max_length := x\<rparr>) = quote_stage c"
  "extra_stage (c\<lparr>max_length := x\<rparr>) = extra_stage c"
  "allowed_stage L (c\<lparr>max_length := x\<rparr>) = allowed_stage L c"
  "whitespace_stage (c\<lparr>max_length := x\<rparr>) = whitespace_stage c"
  "lowercase_stage L (c\<lparr>max_length := x\<rparr>) = lowercase_stage L c"
  by (simp_all add: fun_eq_iff decode_stage_def tag_stage_def invisible_stage_def
      space_stage_def dash_stage_def quote_stage_def extra_stage_def allowed_stage_def
      whitespace_stage_def lowercase_stage_def)

lemma truncate_stage_no_max_length: "truncate_stage (c\<lparr>max_length := None\<rparr>) u = u"
  by (simp add: truncate_stage_def)

lemma clean_without_max_length:
  "clean L c t =
     (case clean L (c\<lparr>max_length := None\<rparr>) t of
        Inl e \<Rightarrow> Inl e
      | Inr u \<Rightarrow> if t = [] then Inr [] else Inr (truncate_stage c u))"
  unfolding clean_def stages_ignore_max_length truncate_stage_no_max_length
  by (simp split: sum.splits)

text \<open>
  C4, amended. With \<open>max_length = m > 0\<close>, let \<open>u\<close> be what \<^verbatim>\<open>clean\<close> returns
  without a limit. If \<open>u\<close> has at most \<open>m\<close> code points it is returned as it is.
  Otherwise the result is the first \<open>k\<close> code points of \<open>u\<close> followed by \<^verbatim>\<open>...\<close>,
  where \<open>k\<close> is the position of the last space among the first \<open>m\<close> code points,
  or \<open>m\<close> when there is no space among them (only then is a word split). The result
  has at most \<open>m + 3\<close> code points: it can be longer than \<open>m\<close> and than the input.
\<close>

theorem clean_truncation:
  assumes ml: "max_length c = Some m"
    and pos: "0 < m"
    and full: "clean L (c\<lparr>max_length := None\<rparr>) t = Inr u"
  shows "(int (length u) \<le> m \<longrightarrow> clean L c t = Inr u) \<and>
         (int (length u) > m \<longrightarrow>
            (\<exists>k r. k \<le> nat m \<and> r = take k u @ str ''...'' \<and> clean L c t = Inr r \<and>
               int (length r) \<le> m + 3 \<and>
               (if 0x20 \<in> set (take (nat m) u)
                then k < nat m \<and> u ! k = 0x20 \<and> 0x20 \<notin> set (drop (Suc k) (take (nat m) u))
                else k = nat m)))"
proof (intro conjI impI)
  assume short: "int (length u) \<le> m"
  have "t = [] \<Longrightarrow> u = []"
    using full by (simp add: clean_def)
  then show "clean L c t = Inr u"
    using full ml pos short
    by (auto simp: clean_without_max_length[of L c t] truncate_stage_def)
next
  assume long: "int (length u) > m"
  have ne: "t \<noteq> []"
    using full long pos by (auto simp: clean_def)
  define x where "x = take (nat m) u"
  have lx: "length x = nat m"
    using long pos by (simp add: x_def)
  have res: "clean L c t = Inr (rsplit1_head 0x20 x @ str ''...'')"
    using full ml pos long ne
    by (simp add: clean_without_max_length[of L c t] truncate_stage_def slice_to_def x_def)
  show "\<exists>k r. k \<le> nat m \<and> r = take k u @ str ''...'' \<and> clean L c t = Inr r \<and>
               int (length r) \<le> m + 3 \<and>
               (if 0x20 \<in> set (take (nat m) u)
                then k < nat m \<and> u ! k = 0x20 \<and> 0x20 \<notin> set (drop (Suc k) (take (nat m) u))
                else k = nat m)"
  proof (cases "0x20 \<in> set x")
    case True
    then obtain k where k: "k < length x" "rsplit1_head 0x20 x = take k x" "x ! k = 0x20"
        "0x20 \<notin> set (drop (Suc k) x)"
      using rsplit1_head_cut[of "0x20" x] by blast
    have tk: "take k x = take k u"
      using k(1) lx by (simp add: x_def min_def)
    have "u ! k = 0x20"
      using k(1,3) lx by (simp add: x_def)
    moreover have "int (length (take k u @ str ''...'')) \<le> m + 3"
      using k(1) lx long by (simp add: str_def)
    ultimately show ?thesis
      using True k lx res tk unfolding x_def[symmetric]
      by (intro exI[of _ k] exI[of _ "take k u @ str ''...''"]) simp
  next
    case False
    then have "rsplit1_head 0x20 x = take (nat m) u"
      by (simp add: rsplit1_head_no_sep x_def)
    moreover have "int (length (take (nat m) u @ str ''...'')) \<le> m + 3"
      using long pos by (simp add: str_def)
    ultimately show ?thesis
      using False res unfolding x_def[symmetric]
      by (intro exI[of _ "nat m"] exI[of _ "take (nat m) u @ str ''...''"]) (simp add: x_def)
  qed
qed

text \<open>
  C4, as the specification states it, fails on ``the result never exceeds the input's own
  length'': with \<open>max_length = 3\<close> the four code points \<^verbatim>\<open>abcd\<close> become the six of
  \<^verbatim>\<open>abc...\<close>.
\<close>

theorem clean_truncation_counterexample:
  "clean py (default_cleaner\<lparr>max_length := Some 3\<rparr>) (str ''abcd'') = Inr (str ''abc...'') \<and>
   length (str ''abc...'') > length (str ''abcd'')"
  by (simp add: eval_defs)

theorem clean_truncation_witness:
  "clean py (default_cleaner\<lparr>max_length := Some 10\<rparr>) (str ''hello world foo'')
     = Inr (take 5 (str ''hello world foo'') @ str ''...'') \<and>
   str ''hello world foo'' ! 5 = 0x20"
proof -
  let ?c = "default_cleaner\<lparr>max_length := Some 10\<rparr>"
  let ?u = "str ''hello world foo''"
  have h1: "max_length ?c = Some 10" by simp
  have h2: "(0::int) < 10" by simp
  have h3: "clean py (?c\<lparr>max_length := None\<rparr>) ?u = Inr ?u"
    by (simp add: eval_defs)
  have "int (length ?u) > 10" by (simp add: str_def)
  with clean_truncation[OF h1 h2 h3]
  obtain k r where kr: "r = take k ?u @ str ''...''" "clean py ?c ?u = Inr r"
     "(if 0x20 \<in> set (take (nat 10) ?u)
       then k < nat 10 \<and> ?u ! k = 0x20 \<and> 0x20 \<notin> set (drop (Suc k) (take (nat 10) ?u))
       else k = nat 10)"
    by blast
  have "clean py ?c ?u = Inr (take 5 ?u @ str ''...'')"
    by (simp add: eval_defs)
  with kr show ?thesis by (simp add: str_def)
qed

section \<open>\<^verbatim>\<open>clean_email\<close>\<close>

lemma sub_chars_filter: "sub_chars P [] s = filter (\<lambda>x. \<not> P x) s"
  by (induction s) (auto simp: sub_chars_def)

lemma sub_chars_none: "(\<forall>x \<in> set s. \<not> P x) \<Longrightarrow> sub_chars P repl s = s"
  by (induction s) (auto simp: sub_chars_def)

lemma clean_email_output:
  "\<forall>x \<in> set (clean_email L s). \<not> invisible_pattern x \<and> \<not> special_space_pattern x"
  by (auto simp: clean_email_def sub_chars_filter)

lemma set_clean_email:
  "s \<noteq> [] \<Longrightarrow> set (clean_email L s) \<subseteq> set (str_lower L (strip s))"
  by (auto simp: clean_email_def sub_chars_filter)

lemma strip_Nil: "strip [] = []"
  by (simp add: strip_def lstrip_def rstrip_def)

text \<open>
  C9, amended. A second \<^verbatim>\<open>clean_email\<close> strips the result of the first:
  \<^verbatim>\<open>clean_email(clean_email(s)) == clean_email(s).strip()\<close>. The result of the first has
  no code point of \<^verbatim>\<open>INVISIBLE_CHARS\<close> or \<^verbatim>\<open>SPECIAL_SPACES\<close>, but it can begin or
  end with white space, since \<^verbatim>\<open>strip\<close> runs before the removals; it is a fixed
  point when it does not. Of \<^verbatim>\<open>lower\<close>, which is not modelled, the theorem takes
  that a string made of code points of a lowercased string is its own lowercase.
\<close>

theorem clean_email_twice:
  assumes lower: "\<forall>x y. set y \<subseteq> set (str_lower L x) \<longrightarrow> str_lower L y = y"
  shows "clean_email L (clean_email L s) = strip (clean_email L s) \<and>
         (\<forall>x \<in> set (clean_email L s). \<not> invisible_pattern x \<and> \<not> special_space_pattern x)"
proof
  show "\<forall>x \<in> set (clean_email L s). \<not> invisible_pattern x \<and> \<not> special_space_pattern x"
    by (rule clean_email_output)
  define y where "y = clean_email L s"
  show "clean_email L (clean_email L s) = strip (clean_email L s)"
  proof (cases "s = [] \<or> y = []")
    case True
    then have "clean_email L s = []" by (auto simp: y_def clean_email_def)
    moreover have "clean_email L [] = []" by (simp add: clean_email_def)
    ultimately show ?thesis by (simp add: strip_Nil)
  next
    case False
    then have "set (strip y) \<subseteq> set (str_lower L (strip s))"
      using set_strip[of y] set_clean_email[of s L] by (auto simp: y_def)
    then have low: "str_lower L (strip y) = strip y"
      using lower by blast
    have "\<forall>x \<in> set (strip y). \<not> invisible_pattern x \<and> \<not> special_space_pattern x"
      using clean_email_output[of L s] set_strip[of y] by (auto simp: y_def)
    then have "sub_chars special_space_pattern [] (sub_chars invisible_pattern [] (strip y)) = strip y"
      by (simp add: sub_chars_none)
    moreover have "clean_email L y =
        sub_chars special_space_pattern [] (sub_chars invisible_pattern [] (str_lower L (strip y)))"
      using False by (simp add: clean_email_def)
    ultimately have "clean_email L y = strip y"
      using low by simp
    then show ?thesis by (simp add: y_def)
  qed
qed

text \<open>
  C9, as stated, fails: \<^verbatim>\<open>clean_email\<close> is not idempotent. The zero-width space
  U+200B is no white space for \<^verbatim>\<open>strip\<close>; once it is removed the space behind it
  leads the result, and a second pass strips it.
\<close>

theorem clean_email_twice_counterexample:
  "clean_email py (clean_email py ([0x200B] @ str '' a@b.c''))
     \<noteq> clean_email py ([0x200B] @ str '' a@b.c'')"
  by (simp add: eval_defs)

theorem clean_email_twice_witness:
  "clean_email py ([0x200B] @ str '' a@b.c'') = str '' a@b.c'' \<and>
   clean_email py (str '' a@b.c'') = strip (str '' a@b.c'') \<and>
   strip (str '' a@b.c'') = str ''a@b.c''"
proof -
  have "\<forall>x y. set y \<subseteq> set (str_lower py x) \<longrightarrow> str_lower py y = y"
  proof (intro allI impI)
    fix x y :: ustring
    assume "set y \<subseteq> set (str_lower py x)"
    then have "\<forall>c \<in> set y. \<not> (0x41 \<le> c \<and> c \<le> 0x5A)"
      by (auto simp: py_def ascii_lower_def)
    then show "str_lower py y = y"
      by (simp add: py_def ascii_lower_def map_idI)
  qed
  from clean_email_twice[OF this, of "[0x200B] @ str '' a@b.c''"]
  have "clean_email py (clean_email py ([0x200B] @ str '' a@b.c''))
          = strip (clean_email py ([0x200B] @ str '' a@b.c''))"
    by blast
  moreover have "clean_email py ([0x200B] @ str '' a@b.c'') = str '' a@b.c''"
    by (simp add: eval_defs)
  moreover have "strip (str '' a@b.c'') = str ''a@b.c''"
    by (simp add: eval_defs)
  ultimately show ?thesis by simp
qed

section \<open>A second run of \<^verbatim>\<open>clean\<close>\<close>

subsection \<open>Tags\<close>


lemma tagless_no_lt: "0x3C \<notin> set t \<Longrightarrow> tagless t"
  by (induction t) auto








lemma set_sub_chars: "set (sub_chars P repl t) \<subseteq> {x \<in> set t. \<not> P x} \<union> set repl"
  by (induction t) (auto simp: sub_chars_def)














lemma set_tag_stage: "set (tag_stage c t) \<subseteq> set t \<union> {0x0A, 0x2022, 0x20}"
proof -
  let ?a = "re_sub br_pattern [0x0A] t"
  let ?b = "re_sub p_pattern [0x0A] ?a"
  let ?c = "re_sub li_pattern [0x0A, 0x2022, 0x20] ?b"
  have "set ?a \<subseteq> set t \<union> {0x0A}" using set_re_sub[of br_pattern "[0x0A]" t] by auto
  moreover have "set ?b \<subseteq> set ?a \<union> {0x0A}" using set_re_sub[of p_pattern "[0x0A]" ?a] by auto
  moreover have "set ?c \<subseteq> set ?b \<union> {0x0A, 0x2022, 0x20}"
    using set_re_sub[of li_pattern "[0x0A, 0x2022, 0x20]" ?b] by auto
  moreover have "set (re_sub html_tag_pattern [] ?c) \<subseteq> set ?c"
    using set_re_sub[of html_tag_pattern "[]" ?c] by auto
  ultimately show ?thesis
    by (auto simp: tag_stage_def)
qed

subsection \<open>Entities\<close>

lemma str_replace_absent:
  "old \<noteq> [] \<Longrightarrow> hd old \<notin> set s \<Longrightarrow> str_replace old new s = s"
proof (induction s)
  case Nil
  then show ?case by simp
next
  case (Cons c cs)
  then have "take (length old) (c # cs) \<noteq> old"
    by (cases old) auto
  then show ?case using Cons by simp
qed

lemma decode_stage_id: "0x26 \<notin> set t \<Longrightarrow> decode_stage L c t = Inr t"
  by (simp add: decode_stage_def unescape_def HTML_ENTITIES_def str_def str_replace_absent)

subsection \<open>Character stages\<close>

lemma sub_chars_map: "sub_chars P [b] t = map (\<lambda>x. if P x then b else x) t"
  by (induction t) (auto simp: sub_chars_def)

lemma dash_stage_sub_chars:
  "dash_stage c t = (if normalize_dashes c then sub_chars dash_key [0x2D] t else t)"
proof -
  have "foldl (\<lambda>t (dash, replacement). str_replace dash replacement t) t DASHES
          = map (\<lambda>x. if dash_key x then 0x2D else x) t"
    by (simp add: DASHES_def str_def str_replace_single dash_key_def)
  then show ?thesis
    by (simp add: dash_stage_def sub_chars_map)
qed

subsection \<open>Runs of spaces\<close>












subsection \<open>\<^verbatim>\<open>strip\<close>\<close>







lemma char_stages_id:
  assumes "\<forall>x \<in> set r. good_char c x"
  shows "char_stages c r = r"
proof -
  have "invisible_stage c r = r" "space_stage c r = r" "dash_stage c r = r"
       "quote_stage c r = r" "extra_stage c r = r"
    using assms
    by (simp_all add: invisible_stage_def space_stage_def dash_stage_sub_chars quote_stage_def
        extra_stage_def good_char_def tame_def sub_chars_none)
  then show ?thesis by (simp add: char_stages_def)
qed

lemma set_char_stages: "set (char_stages c t) \<subseteq> set t \<union> {0x20, 0x2D}"
proof -
  have st: "\<And>f P repl u. set repl \<subseteq> {0x20, 0x2D} \<Longrightarrow>
              set (if f then sub_chars P repl u else u) \<subseteq> set u \<union> {0x20, 0x2D}"
  proof -
    fix f P and repl u :: ustring
    assume "set repl \<subseteq> {0x20, 0x2D}"
    then show "set (if f then sub_chars P repl u else u) \<subseteq> set u \<union> {0x20, 0x2D}"
      using set_sub_chars[of P repl u] by auto
  qed
  let ?t3 = "invisible_stage c t"
  let ?t4 = "space_stage c ?t3"
  let ?t5 = "dash_stage c ?t4"
  let ?t6 = "quote_stage c ?t5"
  have "set ?t3 \<subseteq> set t \<union> {0x20, 0x2D}"
    unfolding invisible_stage_def by (rule st) simp
  moreover have "set ?t4 \<subseteq> set ?t3 \<union> {0x20, 0x2D}"
    unfolding space_stage_def by (rule st) simp
  moreover have "set ?t5 \<subseteq> set ?t4 \<union> {0x20, 0x2D}"
    unfolding dash_stage_sub_chars by (rule st) simp
  moreover have "set ?t6 \<subseteq> set ?t5 \<union> {0x20, 0x2D}"
    unfolding quote_stage_def by (rule st) simp
  moreover have "set (extra_stage c ?t6) \<subseteq> set ?t6 \<union> {0x20, 0x2D}"
    using set_sub_chars[of "\<lambda>x. x \<in> set (extra_remove c)" "[]" ?t6]
    by (auto simp: extra_stage_def)
  ultimately show ?thesis
    unfolding char_stages_def by blast
qed


subsection \<open>Runs of newlines\<close>
















subsection \<open>Lines\<close>

lemma split_on_not_Nil: "split_on sep v \<noteq> []"
  by (induction v) (auto split: list.splits)



lemma join_Cons: "ls \<noteq> [] \<Longrightarrow> join sep (l # ls) = l @ sep @ join sep ls"
  by (cases ls) auto




lemma join_split: "join [sep] (split_on sep v) = v"
proof (induction v)
  case Nil
  then show ?case by simp
next
  case (Cons c cs)
  show ?case
  proof (cases "c = sep")
    case True
    then show ?thesis using Cons by (simp add: join_Cons split_on_not_Nil)
  next
    case False
    obtain l ls where ls: "split_on sep cs = l # ls"
      using split_on_not_Nil[of sep cs] by (cases "split_on sep cs") auto
    then show ?thesis
      using Cons False by (cases ls) auto
  qed
qed

subsection \<open>Removing white space\<close>











subsection \<open>Stripped lines\<close>









subsection \<open>No blank runs\<close>









subsection \<open>Sublists\<close>









subsection \<open>A second run of stage 9\<close>

lemma not_space_takeWhile: "\<not> is_space d \<Longrightarrow> takeWhile is_space (d # ds) = []"
  by simp







subsection \<open>Lowercasing\<close>
















subsection \<open>Settled white space\<close>

















subsection \<open>The cut\<close>



subsection \<open>The whole pipeline\<close>










end
